theory Spec2Isabelle
  imports Main "HOL-Library.Word"
begin

unbundle bit_operations_syntax

section \<open>The callback context of \<^verbatim>\<open>include/wimaxll.h\<close>\<close>

text \<open>
  The header is written for Linux (it includes \<^verbatim>\<open>linux/wimax.h\<close>); the model takes the
  LP64 data model of that platform: \<^verbatim>\<open>int\<close> is a 32-bit word, \<^verbatim>\<open>ssize_t\<close> and
  \<^verbatim>\<open>unsigned long\<close> are 64-bit words, \<^verbatim>\<open>unsigned short\<close> is a 16-bit word.

  \<^verbatim>\<open>EINPROGRESS\<close> comes from \<^verbatim>\<open>sys/errno.h\<close>; on Linux it is 115. It is a C \<^verbatim>\<open>int\<close>
  constant, so \<^verbatim>\<open>-EINPROGRESS\<close> is negated at 32 bits and sign-extended where it meets the
  \<^verbatim>\<open>ssize_t\<close> field.
\<close>

definition EINPROGRESS :: "32 word" where
  "EINPROGRESS = 115"

text \<open>
  A \<^verbatim>\<open>struct wimaxll_handle *\<close> is an address or \<^verbatim>\<open>NULL\<close>; the handle itself is opaque
  to the header.
\<close>

type_synonym handle_ptr = "nat option"

text \<open>
  \<^verbatim>\<open>struct wimaxll_gnl_cb_context { struct wimaxll_handle *wmx; ssize_t result;
  unsigned msg_done:1; }\<close>. An application wraps the structure in one of its own; the record
  scheme \<open>'a wimaxll_gnl_cb_context_scheme\<close> is such a wrapper, \<open>'a\<close> being the
  application's part.
\<close>

record wimaxll_gnl_cb_context =
  wmx :: handle_ptr
  result :: "64 word"
  msg_done :: bool

text \<open>
  The functions of the header take a \<^verbatim>\<open>struct wimaxll_gnl_cb_context *\<close>. Contexts live in a
  store from addresses (of any type \<open>'p\<close>) to structures; a pointer is \<open>None\<close> for
  \<^verbatim>\<open>NULL\<close> or \<open>Some p\<close>. Dereferencing a pointer at which the store holds nothing is
  undefined in C; the model reports it as \<open>BadPointer\<close>.
\<close>

type_synonym ('p, 'a) ctx_store = "'p \<rightharpoonup> 'a wimaxll_gnl_cb_context_scheme"

datatype fault = BadPointer

text \<open>
  \<^verbatim>\<open>#define WIMAXLL_GNL_CB_CONTEXT_INIT(_wmx) { .wmx = (_wmx), .result = -EINPROGRESS, }\<close>:
  a designated initialiser, so the member it does not name, \<^verbatim>\<open>msg_done\<close>, is zero.
\<close>

definition WIMAXLL_GNL_CB_CONTEXT_INIT :: "handle_ptr \<Rightarrow> wimaxll_gnl_cb_context" where
  "WIMAXLL_GNL_CB_CONTEXT_INIT w =
     \<lparr>wmx = w, result = scast (- EINPROGRESS), msg_done = False\<rparr>"

text \<open>
  \<^verbatim>\<open>wimaxll_gnl_cb_context_init(ctx, wmx) { ctx->wmx = wmx; ctx->result = -EINPROGRESS; }\<close>:
  it dereferences \<^verbatim>\<open>ctx\<close> without a check and leaves \<^verbatim>\<open>msg_done\<close> as it finds it.
\<close>

definition wimaxll_gnl_cb_context_init ::
  "'p option \<Rightarrow> handle_ptr \<Rightarrow> ('p, 'a) ctx_store \<Rightarrow> fault + ('p, 'a) ctx_store" where
  "wimaxll_gnl_cb_context_init ctx w h =
     (case ctx of
        None \<Rightarrow> Inl BadPointer
      | Some p \<Rightarrow>
          (case h p of
             None \<Rightarrow> Inl BadPointer
           | Some c \<Rightarrow> Inr (h(p \<mapsto> c\<lparr>wmx := w, result := scast (- EINPROGRESS)\<rparr>))))"

text \<open>
  \<^verbatim>\<open>wimaxll_cb_context_set_result(ctx, val) { if (ctx != NULL && ctx->result == -EINPROGRESS)
  ctx->result = val; }\<close>: \<^verbatim>\<open>val\<close> is an \<^verbatim>\<open>int\<close>, sign-extended by the assignment; the
  \<^verbatim>\<open>&&\<close> reads the field only when the pointer is not \<^verbatim>\<open>NULL\<close>.
\<close>

definition wimaxll_cb_context_set_result ::
  "'p option \<Rightarrow> 32 word \<Rightarrow> ('p, 'a) ctx_store \<Rightarrow> fault + ('p, 'a) ctx_store" where
  "wimaxll_cb_context_set_result ctx val h =
     (case ctx of
        None \<Rightarrow> Inr h
      | Some p \<Rightarrow>
          (case h p of
             None \<Rightarrow> Inl BadPointer
           | Some c \<Rightarrow>
               if result c = scast (- EINPROGRESS)
               then Inr (h(p \<mapsto> c\<lparr>result := scast val\<rparr>))
               else Inr h))"

text \<open>
  The calls of one exchange: every callback invocation that sets the result calls
  \<^verbatim>\<open>wimaxll_cb_context_set_result\<close> on the same context, one after the other.
\<close>

fun set_results ::
  "'p option \<Rightarrow> 32 word list \<Rightarrow> ('p, 'a) ctx_store \<Rightarrow> fault + ('p, 'a) ctx_store" where
  "set_results ctx [] h = Inr h"
| "set_results ctx (v # vs) h =
     (case wimaxll_cb_context_set_result ctx v h of
        Inl e \<Rightarrow> Inl e
      | Inr h' \<Rightarrow> set_results ctx vs h')"

section \<open>Endianness helpers\<close>

text \<open>
  \<^verbatim>\<open>bswap_16\<close> and \<open>bswap_32\<close> are the macros of glibc's \<^verbatim>\<open>byteswap.h\<close>: they reverse
  the bytes of a 16-bit and of a 32-bit value.
\<close>

definition bswap_16 :: "16 word \<Rightarrow> 16 word" where
  "bswap_16 x = (drop_bit 8 x AND 0xff) OR push_bit 8 (x AND 0xff)"

definition bswap_32 :: "32 word \<Rightarrow> 32 word" where
  "bswap_32 x =
     drop_bit 24 (x AND 0xff000000) OR drop_bit 8 (x AND 0x00ff0000) OR
     push_bit 8 (x AND 0x0000ff00) OR push_bit 24 (x AND 0x000000ff)"

text \<open>\<^verbatim>\<open>unsigned short wimaxll_swap_16(unsigned short x) { return bswap_16(x); }\<close>\<close>

definition wimaxll_swap_16 :: "16 word \<Rightarrow> 16 word" where
  "wimaxll_swap_16 x = bswap_16 x"

text \<open>
  \<^verbatim>\<open>unsigned long wimaxll_swap_32(unsigned long x) { return bswap_32(x); }\<close>: the argument is
  an \<^verbatim>\<open>unsigned long\<close>, which \<^verbatim>\<open>bswap_32\<close> takes at 32 bits; the 32-bit result is
  widened back to \<^verbatim>\<open>unsigned long\<close>.
\<close>

definition wimaxll_swap_32 :: "64 word \<Rightarrow> 64 word" where
  "wimaxll_swap_32 x = ucast (bswap_32 (ucast x))"

text \<open>
  \<^verbatim>\<open>__BYTE_ORDER\<close> is fixed when the header is compiled; any value other than these two
  stops the compilation (\<^verbatim>\<open>#error\<close>).
\<close>

datatype byte_order = LITTLE_ENDIAN | BIG_ENDIAN

fun wimaxll_cpu_to_le16 :: "byte_order \<Rightarrow> 16 word \<Rightarrow> 16 word" where
  "wimaxll_cpu_to_le16 LITTLE_ENDIAN x = x"
| "wimaxll_cpu_to_le16 BIG_ENDIAN x = wimaxll_swap_16 x"

fun wimaxll_le16_to_cpu :: "byte_order \<Rightarrow> 16 word \<Rightarrow> 16 word" where
  "wimaxll_le16_to_cpu LITTLE_ENDIAN le16 = le16"
| "wimaxll_le16_to_cpu BIG_ENDIAN le16 = wimaxll_swap_16 le16"

fun wimaxll_cpu_to_le32 :: "byte_order \<Rightarrow> 64 word \<Rightarrow> 64 word" where
  "wimaxll_cpu_to_le32 LITTLE_ENDIAN x = x"
| "wimaxll_cpu_to_le32 BIG_ENDIAN x = wimaxll_swap_32 x"

fun wimaxll_le32_to_cpu :: "byte_order \<Rightarrow> 64 word \<Rightarrow> 64 word" where
  "wimaxll_le32_to_cpu LITTLE_ENDIAN le32 = le32"
| "wimaxll_le32_to_cpu BIG_ENDIAN le32 = wimaxll_swap_32 le32"

section \<open>The pipe registry, the dispatch engine and the synchronous wait\<close>

text \<open>
  The header declares \<^verbatim>\<open>wimaxll_pipe_open\<close>, \<^verbatim>\<open>wimaxll_pipe_fd\<close>, \<^verbatim>\<open>wimaxll_pipe_read\<close>,
  \<^verbatim>\<open>wimaxll_pipe_close\<close>, \<^verbatim>\<open>wimaxll_msg_write\<close> and \<^verbatim>\<open>wimaxll_wait_for_state_change\<close>;
  their bodies are not part of it. The definitions of this section follow sections 3 to 7 of
  the specification, with the signatures of the header.
\<close>

text \<open>
  Modelled from the spec: the values the missing code works on. A raw frame or a payload is
  a list of bytes; a file descriptor is a number; a device state is a value of
  \<^verbatim>\<open>enum wimax_st\<close>, declared in \<^verbatim>\<open>linux/wimax.h\<close> and not in the header.
\<close>

type_synonym bytes = "8 word list"
type_synonym fd = nat
type_synonym wimax_st = int

text \<open>
  Modelled from the spec: the error taxonomy of section 7 (the library's error codes are
  not in the header, which only says that a removed device gives \<^verbatim>\<open>-ENODEV\<close>).
\<close>

datatype error =
  DeviceGone | NoSuchPipe | BadPipeId | MalformedFrame | NotWritable | Timeout | WouldBlock

text \<open>
  Modelled from the spec: what a frame decodes to (section 3): a state-change pair, or the
  payload of a driver message with the protocol envelope stripped. The Frame Codec itself
  is absent; the engine takes \<open>decode\<close> (\<open>None\<close> for a malformed frame) and \<open>encode\<close> as
  parameters.
\<close>

datatype notification = StateChange wimax_st wimax_st | MsgToUser bytes

type_synonym decoder = "bytes \<Rightarrow> notification option"
type_synonym encoder = "bytes \<Rightarrow> error + bytes"

text \<open>
  Modelled from the spec: the memory a callback works on. Callback contexts are owned by
  the caller and referred to by address; the Synchronous Wait Adapter keeps a context of
  its own (\<open>WaitCtx\<close>) for the time of a wait, and leaves the pair it matched in
  \<open>wait_out\<close>, the \<^verbatim>\<open>old_state\<close> and \<^verbatim>\<open>new_state\<close> out-parameters of the header. \<open>app\<close>
  is the rest of the application's state.
\<close>

datatype ctx_addr = AppCtx nat | WaitCtx

record 'u memory =
  contexts :: "(ctx_addr, unit) ctx_store"
  wait_out :: "(wimax_st \<times> wimax_st) option"
  app :: 'u

text \<open>
  Modelled from the spec: a callback receives the context reference installed with it and
  the decoded notification, and returns the control signal: 0 to go on, a negative value
  (\<^verbatim>\<open>-EBUSY\<close> in the header) to stop. It must not call the engine on the same handle
  (section 4.3), so it transforms the memory only.
\<close>

type_synonym 'u callback = "ctx_addr option \<Rightarrow> notification \<Rightarrow> 'u memory \<Rightarrow> int \<times> 'u memory"

text \<open>\<^verbatim>\<open>EBUSY\<close> is the constant of \<^verbatim>\<open>sys/errno.h\<close>, 16 on Linux.\<close>

definition EBUSY :: int where
  "EBUSY = 16"

text \<open>
  Modelled from the spec: a Pipe (section 3): its multicast group, its file descriptor,
  the installed callback and the installed context reference, both nullable.
\<close>

record 'u pipe =
  group :: nat
  pfd :: fd
  cb :: "'u callback option"
  cb_ctx :: "ctx_addr option"

text \<open>
  Modelled from the spec: the kernel interactions of the operations (name resolution, the
  socket of a pipe and its release, receiving, sending, the blocking wait on a
  descriptor), so that an operation that performs none can be told from one that does.
\<close>

datatype kcall = Resolve string | Socket nat fd | Close fd | Recv fd | Send fd bytes | Poll fd

text \<open>
  Modelled from the spec: a Handle with its Pipe Registry (a table of slots indexed by the
  pipe id, slot 0 the control pipe) and its validity flag, together with the kernel side
  it talks to: the multicast groups the kernel advertises by name, the frames queued on
  each socket, the next free file descriptor. \<open>kcalls\<close> logs the kernel interactions and
  \<open>invoked\<close> the callback invocations (pipe id and notification), both oldest first.
\<close>

record 'u world =
  valid :: bool
  pipes :: "'u pipe option list"
  groups :: "string \<rightharpoonup> nat"
  queue :: "fd \<Rightarrow> bytes list"
  next_fd :: fd
  kcalls :: "kcall list"
  invoked :: "(nat \<times> notification) list"
  mem :: "'u memory"

text \<open>
  Modelled from the spec: the slots of the registry. An id past the end of the table is an
  id that was never opened; a new pipe takes the first free slot after the control pipe's.
\<close>

definition slot :: "'a option list \<Rightarrow> nat \<Rightarrow> 'a option" where
  "slot ps i = (if i < length ps then ps ! i else None)"

fun free_slot_from :: "nat \<Rightarrow> 'a option list \<Rightarrow> nat" where
  "free_slot_from i [] = i"
| "free_slot_from i (None # ps) = i"
| "free_slot_from i (Some p # ps) = free_slot_from (Suc i) ps"

definition free_slot :: "'a option list \<Rightarrow> nat" where
  "free_slot ps = free_slot_from 1 (tl ps)"

definition set_slot :: "'a option list \<Rightarrow> nat \<Rightarrow> 'a option \<Rightarrow> 'a option list" where
  "set_slot ps i v =
     (if i < length ps then ps[i := v] else ps @ replicate (i - length ps) None @ [v])"

text \<open>
  Modelled from the spec: \<^verbatim>\<open>open_pipe\<close> (section 4.2; the body of \<^verbatim>\<open>wimaxll_pipe_open\<close> is
  absent). An invalid handle fails with \<open>DeviceGone\<close> before any resolution; an unknown
  name fails with \<open>NoSuchPipe\<close> and registers nothing; otherwise the pipe takes the first
  free slot after the control pipe and a socket of its own.
\<close>

definition wimaxll_pipe_open :: "'u world \<Rightarrow> string \<Rightarrow> (error + nat) \<times> 'u world" where
  "wimaxll_pipe_open w name =
     (if \<not> valid w then (Inl DeviceGone, w)
      else
        (case groups w name of
           None \<Rightarrow> (Inl NoSuchPipe, w\<lparr>kcalls := kcalls w @ [Resolve name]\<rparr>)
         | Some g \<Rightarrow>
             (Inr (free_slot (pipes w)),
              w\<lparr>pipes := set_slot (pipes w) (free_slot (pipes w))
                           (Some \<lparr>group = g, pfd = next_fd w, cb = None, cb_ctx = None\<rparr>),
                next_fd := Suc (next_fd w),
                kcalls := kcalls w @ [Resolve name, Socket g (next_fd w)]\<rparr>)))"

text \<open>
  Modelled from the spec: \<^verbatim>\<open>fd(pipe_id) -> fd | Error(BadPipeId)\<close> (sections 4.2 and 6; the
  body of \<^verbatim>\<open>wimaxll_pipe_fd\<close> is absent).
\<close>

definition wimaxll_pipe_fd :: "'u world \<Rightarrow> nat \<Rightarrow> error + fd" where
  "wimaxll_pipe_fd w pipe_id =
     (case slot (pipes w) pipe_id of
        None \<Rightarrow> Inl BadPipeId
      | Some p \<Rightarrow> Inr (pfd p))"

text \<open>
  Modelled from the spec: \<^verbatim>\<open>close_pipe\<close> (section 4.2; the bodies of \<^verbatim>\<open>wimaxll_pipe_close\<close>
  and \<^verbatim>\<open>wimaxll_mc_rx_close\<close> are absent). Closing releases the socket and clears the
  registry slot; on a slot that is closed or was never opened there is nothing to do; the
  control pipe is not closed by the caller. The header declares both functions
  \<^verbatim>\<open>void\<close>: \<^verbatim>\<open>void wimaxll_pipe_close(struct wimaxll_handle *, unsigned)\<close>. They have no
  status to return, so the result is \<open>Inr ()\<close> on every path.
\<close>

definition wimaxll_pipe_close :: "'u world \<Rightarrow> nat \<Rightarrow> (error + unit) \<times> 'u world" where
  "wimaxll_pipe_close w pipe_id =
     (case slot (pipes w) pipe_id of
        None \<Rightarrow> (Inr (), w)
      | Some p \<Rightarrow>
          if pipe_id = 0 then (Inr (), w)
          else
            (Inr (),
             w\<lparr>pipes := (pipes w)[pipe_id := None],
               queue := (queue w)(pfd p := []),
               kcalls := kcalls w @ [Close (pfd p)]\<rparr>))"

text \<open>
  Modelled from the spec: \<^verbatim>\<open>set_callback(handle, pipe_id, callback, context)\<close> (sections
  3 and 6; the header declares \<^verbatim>\<open>wimaxll_pipe_set_cb_msg_to_user\<close> without a body): one
  callback and context pair per pipe, the last writer wins.
\<close>

definition set_callback ::
  "'u world \<Rightarrow> nat \<Rightarrow> 'u callback option \<Rightarrow> ctx_addr option \<Rightarrow> 'u world" where
  "set_callback w pipe_id c x =
     (case slot (pipes w) pipe_id of
        None \<Rightarrow> w
      | Some p \<Rightarrow> w\<lparr>pipes := (pipes w)[pipe_id := Some (p\<lparr>cb := c, cb_ctx := x\<rparr>)]\<rparr>)"

text \<open>
  Modelled from the spec: \<^verbatim>\<open>get_callback(handle, pipe_id) -> (callback, context)\<close>
  (section 6); an id with no open pipe has nothing installed.
\<close>

definition get_callback :: "'u world \<Rightarrow> nat \<Rightarrow> 'u callback option \<times> ctx_addr option" where
  "get_callback w pipe_id =
     (case slot (pipes w) pipe_id of
        None \<Rightarrow> (None, None)
      | Some p \<Rightarrow> (cb p, cb_ctx p))"

text \<open>
  Modelled from the spec: the drain loop of the Dispatch Engine (section 4.3). It receives
  the queued frames one by one until none is left. A frame that does not decode is dropped
  and the loop goes on; with no callback installed a frame is consumed silently; otherwise
  the callback is invoked, and a negative return stops the loop at once, the frames not yet
  received staying on the socket. The result is the frames left, the notifications the
  callback was invoked on, the bytes consumed and the memory.
\<close>

fun drain ::
  "decoder \<Rightarrow> 'u callback option \<Rightarrow> ctx_addr option \<Rightarrow> bytes list \<Rightarrow> 'u memory \<Rightarrow>
     bytes list \<times> notification list \<times> nat \<times> 'u memory" where
  "drain dec c x [] m = ([], [], 0, m)"
| "drain dec c x (f # fs) m =
     (case dec f of
        None \<Rightarrow>
          (case drain dec c x fs m of (q, ns, n, m') \<Rightarrow> (q, ns, length f + n, m'))
      | Some nt \<Rightarrow>
          (case c of
             None \<Rightarrow>
               (case drain dec c x fs m of (q, ns, n, m') \<Rightarrow> (q, ns, length f + n, m'))
           | Some call \<Rightarrow>
               (case call x nt m of
                  (r, m1) \<Rightarrow>
                    if r < 0 then (fs, [nt], length f, m1)
                    else
                      (case drain dec c x fs m1 of
                         (q, ns, n, m') \<Rightarrow> (q, nt # ns, length f + n, m')))))"

text \<open>
  Modelled from the spec: \<^verbatim>\<open>pipe_read(handle, pipe_id) -> bytes_consumed | error\<close> (sections
  4.3 and 6; the body of \<^verbatim>\<open>wimaxll_pipe_read\<close> is absent). An invalid handle fails with
  \<open>DeviceGone\<close> and touches nothing; an id with no open pipe fails with \<open>BadPipeId\<close>.
\<close>

definition wimaxll_pipe_read :: "decoder \<Rightarrow> 'u world \<Rightarrow> nat \<Rightarrow> (error + nat) \<times> 'u world" where
  "wimaxll_pipe_read dec w pipe_id =
     (if \<not> valid w then (Inl DeviceGone, w)
      else
        (case slot (pipes w) pipe_id of
           None \<Rightarrow> (Inl BadPipeId, w)
         | Some p \<Rightarrow>
             (case drain dec (cb p) (cb_ctx p) (queue w (pfd p)) (mem w) of
                (q, ns, n, m) \<Rightarrow>
                  (Inr n,
                   w\<lparr>queue := (queue w)(pfd p := q),
                     kcalls := kcalls w @ [Recv (pfd p)],
                     invoked := invoked w @ map (Pair pipe_id) ns,
                     mem := m\<rparr>))))"

text \<open>
  Modelled from the spec: the write path (section 4.5; the body of \<^verbatim>\<open>wimaxll_msg_write\<close> is
  absent). Only the control pipe is writable; the payload is wrapped by \<open>encode\<close>, whose
  refusal (a frame over the size ceiling) goes back to the caller; the write waits for no
  acknowledgement.
\<close>

definition pipe_write ::
  "encoder \<Rightarrow> 'u world \<Rightarrow> nat \<Rightarrow> bytes \<Rightarrow> (error + nat) \<times> 'u world" where
  "pipe_write enc w pipe_id buf =
     (if \<not> valid w then (Inl DeviceGone, w)
      else
        (case slot (pipes w) pipe_id of
           None \<Rightarrow> (Inl BadPipeId, w)
         | Some p \<Rightarrow>
             if pipe_id \<noteq> 0 then (Inl NotWritable, w)
             else
               (case enc buf of
                  Inl e \<Rightarrow> (Inl e, w)
                | Inr frame \<Rightarrow>
                    (Inr (length buf), w\<lparr>kcalls := kcalls w @ [Send (pfd p) frame]\<rparr>))))"

text \<open>
  Modelled from the spec: \<^verbatim>\<open>msg_write(handle, buffer, size) -> bytes_written | error\<close>
  (section 6): the write path on the control pipe.
\<close>

definition wimaxll_msg_write :: "encoder \<Rightarrow> 'u world \<Rightarrow> bytes \<Rightarrow> (error + nat) \<times> 'u world" where
  "wimaxll_msg_write enc w buf = pipe_write enc w 0 buf"

text \<open>
  Modelled from the spec: the one-shot callback of the Synchronous Wait Adapter (section
  4.4). When the notification satisfies the matcher it writes the outcome once (only while
  the result slot of its context is still \<^verbatim>\<open>-EINPROGRESS\<close>), signals completion in
  \<^verbatim>\<open>msg_done\<close> and returns the stop signal; any other notification lets the drain go on.
\<close>

definition wait_cb :: "(notification \<Rightarrow> (wimax_st \<times> wimax_st) option) \<Rightarrow> 'u callback" where
  "wait_cb matcher x nt m =
     (case matcher nt of
        None \<Rightarrow> (0, m)
      | Some out \<Rightarrow>
          (case x of
             None \<Rightarrow> (- EBUSY, m)
           | Some a \<Rightarrow>
               (case contexts m a of
                  None \<Rightarrow> (- EBUSY, m)
                | Some c \<Rightarrow>
                    if result c = scast (- EINPROGRESS)
                    then (- EBUSY,
                          m\<lparr>contexts := (contexts m)(a \<mapsto> c\<lparr>result := 0, msg_done := True\<rparr>),
                            wait_out := Some out\<rparr>)
                    else (- EBUSY, m))))"

text \<open>
  Modelled from the spec: what a blocking wait on the pipe's descriptor observes when it
  returns (sections 4.4 and 5): the descriptor is readable, with the frames the kernel has
  queued meanwhile, or the kernel reports that the device is gone, which marks the handle
  invalid. A wait is given the list of these observations; when the list is exhausted the
  caller's deadline has passed.
\<close>

datatype event = Readable "bytes list" | DeviceRemoved

text \<open>
  Modelled from the spec: the blocking step of the adapter, a wait on the single descriptor
  of the pipe (section 4.4), which is a kernel interaction.
\<close>

definition block_on_fd :: "'u world \<Rightarrow> fd \<Rightarrow> event \<Rightarrow> 'u world" where
  "block_on_fd w f e =
     (case e of
        Readable fs \<Rightarrow> w\<lparr>queue := (queue w)(f := queue w f @ fs), kcalls := kcalls w @ [Poll f]\<rparr>
      | DeviceRemoved \<Rightarrow> w\<lparr>valid := False, kcalls := kcalls w @ [Poll f]\<rparr>)"

text \<open>
  Modelled from the spec: the completion check of the adapter (section 4.4): the
  exchange-complete flag of its context, and with it the outcome.
\<close>

definition completed :: "'u world \<Rightarrow> (wimax_st \<times> wimax_st) option" where
  "completed w =
     (case contexts (mem w) WaitCtx of
        None \<Rightarrow> None
      | Some c \<Rightarrow> if msg_done c then wait_out (mem w) else None)"

text \<open>
  Modelled from the spec: the loop of the adapter (section 4.4): block on the descriptor,
  call the Dispatch Engine, check the completion flag, until completion, a failure of the
  read (the device gone) or the deadline.
\<close>

fun wait_loop ::
  "decoder \<Rightarrow> nat \<Rightarrow> fd \<Rightarrow> event list \<Rightarrow> 'u world \<Rightarrow>
     (error + wimax_st \<times> wimax_st) \<times> 'u world" where
  "wait_loop dec pipe_id f [] w = (Inl Timeout, w)"
| "wait_loop dec pipe_id f (e # es) w =
     (case wimaxll_pipe_read dec (block_on_fd w f e) pipe_id of
        (Inl err, w') \<Rightarrow> (Inl err, w')
      | (Inr n, w') \<Rightarrow>
          (case completed w' of
             Some out \<Rightarrow> (Inr out, w')
           | None \<Rightarrow> wait_loop dec pipe_id f es w'))"

text \<open>
  Modelled from the spec: \<^verbatim>\<open>wait_for(pipe_id, matcher)\<close> (section 4.4). The adapter saves
  the installed callback and context, installs its one-shot callback with a context
  initialised as the header's macro does, runs the loop, and on return puts the saved pair
  back and gives up its context.
\<close>

definition wait_for ::
  "decoder \<Rightarrow> handle_ptr \<Rightarrow> nat \<Rightarrow> (notification \<Rightarrow> (wimax_st \<times> wimax_st) option) \<Rightarrow>
     event list \<Rightarrow> 'u world \<Rightarrow> (error + wimax_st \<times> wimax_st) \<times> 'u world" where
  "wait_for dec h pipe_id matcher es w =
     (if \<not> valid w then (Inl DeviceGone, w)
      else
        (case slot (pipes w) pipe_id of
           None \<Rightarrow> (Inl BadPipeId, w)
         | Some p \<Rightarrow>
             (case wait_loop dec pipe_id (pfd p) es
                     (set_callback
                        (w\<lparr>mem := (mem w)\<lparr>contexts :=
                                      (contexts (mem w))(WaitCtx \<mapsto> WIMAXLL_GNL_CB_CONTEXT_INIT h),
                                    wait_out := None\<rparr>\<rparr>)
                        pipe_id (Some (wait_cb matcher)) (Some WaitCtx)) of
                (r, w') \<Rightarrow>
                  (r, set_callback
                        (w'\<lparr>mem := (mem w')\<lparr>contexts := (contexts (mem w'))(WaitCtx := None)\<rparr>\<rparr>)
                        pipe_id (cb p) (cb_ctx p)))))"

text \<open>
  Modelled from the spec: the matcher "this is a state-change event" (section 4.4), giving
  the pair of states of section 3.
\<close>

fun state_change :: "notification \<Rightarrow> (wimax_st \<times> wimax_st) option" where
  "state_change (StateChange old new) = Some (old, new)"
| "state_change (MsgToUser data) = None"

text \<open>
  Modelled from the spec: \<^verbatim>\<open>wait_for_state_change(handle) -> (old_state, new_state) | error\<close>
  (section 6; the body of \<^verbatim>\<open>wimaxll_wait_for_state_change\<close> is absent): the adapter on the
  control pipe, matching state-change notifications.
\<close>

definition wimaxll_wait_for_state_change ::
  "decoder \<Rightarrow> handle_ptr \<Rightarrow> event list \<Rightarrow> 'u world \<Rightarrow>
     (error + wimax_st \<times> wimax_st) \<times> 'u world" where
  "wimaxll_wait_for_state_change dec h es w = wait_for dec h 0 state_change es w"

section \<open>Sequences of operations, callback returns and an example handle\<close>

text \<open>
  The operations that a removed device makes fail (section 8: read, write, open_pipe, wait),
  run one after the other on the same handle; \<open>failure\<close> is the error an operation
  returned, if any.
\<close>

datatype op = Read nat | Write bytes | OpenPipe string | Wait "event list"

fun failure :: "error + 'a \<Rightarrow> error option" where
  "failure (Inl e) = Some e"
| "failure (Inr v) = None"

definition exec_op ::
  "decoder \<Rightarrow> encoder \<Rightarrow> handle_ptr \<Rightarrow> op \<Rightarrow> 'u world \<Rightarrow> error option \<times> 'u world" where
  "exec_op dec enc h a w =
     (case a of
        Read i \<Rightarrow> (case wimaxll_pipe_read dec w i of (r, w') \<Rightarrow> (failure r, w'))
      | Write buf \<Rightarrow> (case wimaxll_msg_write enc w buf of (r, w') \<Rightarrow> (failure r, w'))
      | OpenPipe name \<Rightarrow> (case wimaxll_pipe_open w name of (r, w') \<Rightarrow> (failure r, w'))
      | Wait es \<Rightarrow>
          (case wimaxll_wait_for_state_change dec h es w of (r, w') \<Rightarrow> (failure r, w')))"

fun exec_ops ::
  "decoder \<Rightarrow> encoder \<Rightarrow> handle_ptr \<Rightarrow> op list \<Rightarrow> 'u world \<Rightarrow>
     error option list \<times> 'u world" where
  "exec_ops dec enc h [] w = ([], w)"
| "exec_ops dec enc h (a # as) w =
     (case exec_op dec enc h a w of
        (r, w') \<Rightarrow> (case exec_ops dec enc h as w' of (rs, w'') \<Rightarrow> (r # rs, w'')))"


text \<open>
  An example in the manner of the scenario of section 8: a handle with the control pipe on
  descriptor 3 and the pipe \<open>diag\<close> on descriptor 4; a codec whose frames are a tag byte
  (0: a state change with two state bytes, 1: a driver message) and a body; a callback that
  counts its invocations in the application state and stops on the second.
\<close>

definition example_decode :: decoder where
  "example_decode f =
     (case f of
        [] \<Rightarrow> None
      | t # body \<Rightarrow>
          if t = 0 then
            (case body of [a, b] \<Rightarrow> Some (StateChange (uint a) (uint b)) | _ \<Rightarrow> None)
          else if t = 1 then Some (MsgToUser body)
          else None)"

definition example_world :: "nat world" where
  "example_world =
     \<lparr>valid = True,
      pipes = [Some \<lparr>group = 1, pfd = 3, cb = None, cb_ctx = None\<rparr>,
               Some \<lparr>group = 7, pfd = 4, cb = None, cb_ctx = None\<rparr>],
      groups = [''diag'' \<mapsto> 7],
      queue = (\<lambda>f. []),
      next_fd = 5,
      kcalls = [],
      invoked = [],
      mem = \<lparr>contexts = Map.empty, wait_out = None, app = 0\<rparr>\<rparr>"

definition stop_on_second :: "nat callback" where
  "stop_on_second x n m =
     (if app m = 1 then (- EBUSY, m\<lparr>app := Suc (app m)\<rparr>) else (0, m\<lparr>app := Suc (app m)\<rparr>))"






definition example_gone :: "nat world" where
  "example_gone = block_on_fd example_world 3 DeviceRemoved"

section \<open>Properties of the callback context\<close>

lemma scast_int_ssize_inj: "inj (scast :: 32 word \<Rightarrow> 64 word)"
  by (rule inj_on_inverseI [where g = "scast :: 64 word \<Rightarrow> 32 word"])
    (simp add: scast_up_scast_id is_up)

lemma scast_eq_sentinel:
  "(scast (v :: 32 word) = (scast (- EINPROGRESS) :: 64 word)) = (v = - EINPROGRESS)"
  using scast_int_ssize_inj by (auto dest: injD)

lemma set_result_done:
  assumes "h p = Some c" and "result c \<noteq> scast (- EINPROGRESS)"
  shows "wimaxll_cb_context_set_result (Some p) v h = Inr h"
  using assms by (simp add: wimaxll_cb_context_set_result_def)

lemma set_result_pending:
  assumes "h p = Some c" and "result c = scast (- EINPROGRESS)"
  shows "wimaxll_cb_context_set_result (Some p) v h = Inr (h(p \<mapsto> c\<lparr>result := scast v\<rparr>))"
  using assms by (simp add: wimaxll_cb_context_set_result_def)

lemma set_results_done:
  assumes "h p = Some c" and "result c \<noteq> scast (- EINPROGRESS)"
  shows "set_results (Some p) vs h = Inr h"
  using assms by (induction vs) (simp_all add: set_result_done)

lemma set_results_pending:
  assumes "h p = Some c" and "result c = scast (- EINPROGRESS)"
  shows "set_results (Some p) vs h =
    Inr (h(p \<mapsto> c\<lparr>result := (case find (\<lambda>v. v \<noteq> - EINPROGRESS) vs of
                                  None \<Rightarrow> scast (- EINPROGRESS)
                                | Some v \<Rightarrow> scast v)\<rparr>))"
  using assms
proof (induction vs arbitrary: h c)
  case Nil
  have "c\<lparr>result := scast (- EINPROGRESS)\<rparr> = c"
    using Nil(2) by simp
  then show ?case
    using Nil(1) by (simp add: map_upd_triv)
next
  case (Cons v vs)
  let ?h = "h(p \<mapsto> c\<lparr>result := scast v\<rparr>)"
  have step: "wimaxll_cb_context_set_result (Some p) v h = Inr ?h"
    using Cons.prems by (rule set_result_pending)
  show ?case
  proof (cases "v = - EINPROGRESS")
    case True
    have "c\<lparr>result := scast v\<rparr> = c"
      using Cons.prems(2) True by simp
    then have same: "?h = h"
      using Cons.prems(1) by (simp add: map_upd_triv)
    have "set_results (Some p) (v # vs) h = set_results (Some p) vs ?h"
      using step by simp
    also have "\<dots> = set_results (Some p) vs h"
      by (simp only: same)
    also have "\<dots> = Inr (h(p \<mapsto> c\<lparr>result :=
          (case find (\<lambda>v. v \<noteq> - EINPROGRESS) vs of
             None \<Rightarrow> scast (- EINPROGRESS) | Some v \<Rightarrow> scast v)\<rparr>))"
      using Cons.prems by (rule Cons.IH)
    finally have "set_results (Some p) (v # vs) h = Inr (h(p \<mapsto> c\<lparr>result :=
          (case find (\<lambda>v. v \<noteq> - EINPROGRESS) vs of
             None \<Rightarrow> scast (- EINPROGRESS) | Some v \<Rightarrow> scast v)\<rparr>))" .
    moreover have "find (\<lambda>v. v \<noteq> - EINPROGRESS) (v # vs) = find (\<lambda>v. v \<noteq> - EINPROGRESS) vs"
      using True by simp
    ultimately show ?thesis
      by (simp only:)
  next
    case False
    then have "result (c\<lparr>result := scast v\<rparr>) \<noteq> scast (- EINPROGRESS)"
      by (simp add: scast_eq_sentinel)
    then have rest: "set_results (Some p) vs ?h = Inr ?h"
      by (intro set_results_done [where c = "c\<lparr>result := scast v\<rparr>"]) simp_all
    have "set_results (Some p) (v # vs) h = set_results (Some p) vs ?h"
      using step by simp
    also note rest
    finally have "set_results (Some p) (v # vs) h = Inr ?h" .
    moreover have "find (\<lambda>v. v \<noteq> - EINPROGRESS) (v # vs) = Some v"
      using False by simp
    ultimately show ?thesis
      by (simp only: option.case)
  qed
qed

text \<open>
  C1. On a context at address \<open>p\<close>, \<^verbatim>\<open>wimaxll_cb_context_set_result\<close> writes the value only
  while the result slot holds \<^verbatim>\<open>-EINPROGRESS\<close>, and leaves the store as it is otherwise.
  Over the calls of an exchange (\<open>set_results\<close>) a slot that holds a final value never
  changes, and a slot that starts at the sentinel ends with the first value set that is not
  the sentinel itself: it leaves the sentinel at most once and the first setter wins.
\<close>

theorem set_result_single_assignment:
  assumes "h p = Some c"
  shows "wimaxll_cb_context_set_result (Some p) v h =
           Inr (if result c = scast (- EINPROGRESS) then h(p \<mapsto> c\<lparr>result := scast v\<rparr>) else h) \<and>
         set_results (Some p) vs h =
           Inr (if result c = scast (- EINPROGRESS)
                then h(p \<mapsto> c\<lparr>result := (case find (\<lambda>v. v \<noteq> - EINPROGRESS) vs of
                                               None \<Rightarrow> scast (- EINPROGRESS)
                                             | Some v \<Rightarrow> scast v)\<rparr>)
                else h) \<and>
         ((scast v :: 64 word) = scast (- EINPROGRESS)) = (v = - EINPROGRESS)"
proof (cases "result c = scast (- EINPROGRESS)")
  case True
  then show ?thesis
    using assms
    by (simp only: set_result_pending set_results_pending scast_eq_sentinel if_True simp_thms)
next
  case False
  then show ?thesis
    using assms
    by (simp only: set_result_done set_results_done scast_eq_sentinel if_False simp_thms)
qed

theorem set_result_single_assignment_witness:
  "wimaxll_cb_context_set_result (Some (0::nat)) 5 [0 \<mapsto> WIMAXLL_GNL_CB_CONTEXT_INIT None] =
     Inr [0 \<mapsto> (WIMAXLL_GNL_CB_CONTEXT_INIT None)\<lparr>result := 5\<rparr>] \<and>
   set_results (Some (0::nat)) [- EINPROGRESS, 7, 9] [0 \<mapsto> WIMAXLL_GNL_CB_CONTEXT_INIT None] =
     Inr [0 \<mapsto> (WIMAXLL_GNL_CB_CONTEXT_INIT None)\<lparr>result := 7\<rparr>]"
proof -
  let ?c = "WIMAXLL_GNL_CB_CONTEXT_INIT None"
  have at: "[0 \<mapsto> ?c] (0::nat) = Some ?c"
    by simp
  have pending: "result ?c = scast (- EINPROGRESS)"
    by (simp add: WIMAXLL_GNL_CB_CONTEXT_INIT_def)
  have first: "find (\<lambda>v. v \<noteq> - EINPROGRESS) [- EINPROGRESS, 7, 9] = Some 7"
    by (simp add: EINPROGRESS_def)
  show ?thesis
    using set_result_single_assignment
      [of "[0 \<mapsto> ?c]" "0::nat" ?c 5 "[- EINPROGRESS, 7, 9]"] at
    by (simp only: pending first if_True option.case) simp
qed

text \<open>
  C8. On a context at address \<open>p\<close>, \<^verbatim>\<open>wimaxll_gnl_cb_context_init\<close> succeeds and leaves
  there a context whose \<^verbatim>\<open>wmx\<close> is the handle given and whose \<^verbatim>\<open>result\<close> is
  \<^verbatim>\<open>-EINPROGRESS\<close>; the context the macro \<^verbatim>\<open>WIMAXLL_GNL_CB_CONTEXT_INIT\<close> builds has the
  same two fields.
\<close>

theorem context_init_forms_agree:
  assumes "h p = Some c"
  shows "case wimaxll_gnl_cb_context_init (Some p) w h of
           Inl e \<Rightarrow> False
         | Inr h' \<Rightarrow>
             (case h' p of
                None \<Rightarrow> False
              | Some c' \<Rightarrow>
                  wmx c' = w \<and> result c' = scast (- EINPROGRESS) \<and>
                  wmx (WIMAXLL_GNL_CB_CONTEXT_INIT w) = w \<and>
                  result (WIMAXLL_GNL_CB_CONTEXT_INIT w) = scast (- EINPROGRESS) \<and>
                  wmx c' = wmx (WIMAXLL_GNL_CB_CONTEXT_INIT w) \<and>
                  result c' = result (WIMAXLL_GNL_CB_CONTEXT_INIT w))"
  using assms
  by (simp add: wimaxll_gnl_cb_context_init_def WIMAXLL_GNL_CB_CONTEXT_INIT_def)

theorem context_init_forms_agree_witness:
  "case wimaxll_gnl_cb_context_init (Some (3::nat)) (Some 1)
          [3 \<mapsto> \<lparr>wmx = None, result = 0, msg_done = True\<rparr>] of
     Inl e \<Rightarrow> False
   | Inr h' \<Rightarrow>
       (case h' 3 of
          None \<Rightarrow> False
        | Some c' \<Rightarrow>
            wmx c' = Some 1 \<and> result c' = - 115 \<and>
            wmx c' = wmx (WIMAXLL_GNL_CB_CONTEXT_INIT (Some 1)) \<and>
            result c' = result (WIMAXLL_GNL_CB_CONTEXT_INIT (Some 1)))"
proof -
  have at: "[3 \<mapsto> \<lparr>wmx = None, result = 0, msg_done = True\<rparr>] (3::nat) =
      Some \<lparr>wmx = None, result = 0, msg_done = True\<rparr>"
    by simp
  have sentinel: "(scast (- EINPROGRESS) :: 64 word) = - 115"
    by (simp add: EINPROGRESS_def)
  show ?thesis
    using context_init_forms_agree
      [of "[3 \<mapsto> \<lparr>wmx = None, result = 0, msg_done = True\<rparr>]" "3::nat"
          "\<lparr>wmx = None, result = 0, msg_done = True\<rparr>" "Some 1"] at
    by (auto simp add: sentinel split: sum.splits option.splits)
qed

text \<open>
  C10. With a \<^verbatim>\<open>NULL\<close> context, \<^verbatim>\<open>wimaxll_cb_context_set_result\<close> returns normally (no
  fault, so nothing was dereferenced) and the store is the one it was given, whatever the
  value.
\<close>

theorem set_result_null_noop:
  "wimaxll_cb_context_set_result None v h = Inr h"
  by (simp add: wimaxll_cb_context_set_result_def)

section \<open>Properties of the endianness helpers\<close>

lemma byte_mask_16: "(0xff :: 16 word) = mask 8"
  by (simp add: mask_eq_exp_minus_1)

lemma byte_masks_32:
  "(0xff000000 :: 32 word) = push_bit 24 (mask 8)"
  "(0x00ff0000 :: 32 word) = push_bit 16 (mask 8)"
  "(0x0000ff00 :: 32 word) = push_bit 8 (mask 8)"
  "(0x000000ff :: 32 word) = mask 8"
  by (simp_all add: mask_eq_exp_minus_1)

lemma bswap_16_involution: "bswap_16 (bswap_16 x) = x"
proof -
  have "bit (bswap_16 (bswap_16 x)) n = bit x n" if "n < 16" for n
    unfolding bswap_16_def byte_mask_16
    using that by (cases "n < 8") (auto simp add: bit_simps)
  then show ?thesis
    by (intro bit_word_eqI) simp
qed

lemma bswap_32_involution: "bswap_32 (bswap_32 x) = x"
proof -
  have "bit (bswap_32 (bswap_32 x)) n = bit x n" if n: "n < 32" for n
  proof -
    consider "n < 8" | "8 \<le> n" "n < 16" | "16 \<le> n" "n < 24" | "24 \<le> n" "n < 32"
      using n by fastforce
    then show ?thesis
      unfolding bswap_32_def byte_masks_32
      by cases (auto simp add: bit_simps)
  qed
  then show ?thesis
    by (intro bit_word_eqI) simp
qed

lemma ucast_long_of_32: "(ucast (ucast (y :: 32 word) :: 64 word) :: 32 word) = y"
  by (simp add: ucast_up_ucast_id is_up)

lemma wimaxll_swap_32_involution:
  "wimaxll_swap_32 (wimaxll_swap_32 (ucast (y :: 32 word))) = ucast y"
  by (simp add: wimaxll_swap_32_def ucast_long_of_32 bswap_32_involution)

text \<open>
  C9. Whatever the byte order the header is compiled for, \<^verbatim>\<open>wimaxll_le16_to_cpu\<close> undoes
  \<^verbatim>\<open>wimaxll_cpu_to_le16\<close> and the other way round on every 16-bit value, and
  \<^verbatim>\<open>wimaxll_le32_to_cpu\<close> undoes \<^verbatim>\<open>wimaxll_cpu_to_le32\<close> and the other way round on every
  32-bit value (held in an \<^verbatim>\<open>unsigned long\<close>).
\<close>

theorem endianness_round_trip:
  "wimaxll_le16_to_cpu bo (wimaxll_cpu_to_le16 bo x) = x \<and>
   wimaxll_cpu_to_le16 bo (wimaxll_le16_to_cpu bo x) = x \<and>
   wimaxll_le32_to_cpu bo (wimaxll_cpu_to_le32 bo (ucast (y :: 32 word))) = ucast y \<and>
   wimaxll_cpu_to_le32 bo (wimaxll_le32_to_cpu bo (ucast (y :: 32 word))) = ucast y"
  by (cases bo)
    (simp_all add: wimaxll_swap_16_def bswap_16_involution wimaxll_swap_32_involution)

section \<open>Properties of the pipe registry\<close>

lemma slot_update_other: "j \<noteq> i \<Longrightarrow> slot (ps[i := v]) j = slot ps j"
  by (simp add: slot_def)

lemma slot_update_same: "slot (ps[i := None]) i = None"
  by (simp add: slot_def)

text \<open>
  C7, as amended. \<^verbatim>\<open>wimaxll_pipe_close\<close> is declared \<^verbatim>\<open>void\<close>, so it reports no error on
  any id. On an id that is closed or was never opened it changes nothing at all; on any id
  it leaves every other slot of the registry as it was; and after the close of an id other
  than the control pipe's, \<^verbatim>\<open>fd\<close> of that id fails with \<open>BadPipeId\<close> and a second close
  changes nothing.
\<close>

theorem close_pipe_void:
  "fst (wimaxll_pipe_close w k) = Inr () \<and>
   (slot (pipes w) i = None \<longrightarrow> wimaxll_pipe_close w i = (Inr (), w)) \<and>
   (j \<noteq> k \<longrightarrow> slot (pipes (snd (wimaxll_pipe_close w k))) j = slot (pipes w) j) \<and>
   (k \<noteq> 0 \<longrightarrow>
      wimaxll_pipe_fd (snd (wimaxll_pipe_close w k)) k = Inl BadPipeId \<and>
      wimaxll_pipe_close (snd (wimaxll_pipe_close w k)) k = (Inr (), snd (wimaxll_pipe_close w k)))"
  by (auto simp add: wimaxll_pipe_close_def wimaxll_pipe_fd_def slot_update_other slot_update_same
      split: option.splits)

theorem close_pipe_void_witness:
  "fst (wimaxll_pipe_close example_world 1) = Inr () \<and>
   wimaxll_pipe_close example_world 5 = (Inr (), example_world) \<and>
   slot (pipes (snd (wimaxll_pipe_close example_world 1))) 0 = slot (pipes example_world) 0 \<and>
   wimaxll_pipe_fd example_world 1 = Inr 4 \<and>
   wimaxll_pipe_fd (snd (wimaxll_pipe_close example_world 1)) 1 = Inl BadPipeId"
proof -
  have never: "slot (pipes example_world) 5 = None"
    by (simp add: example_world_def slot_def)
  have "wimaxll_pipe_fd example_world 1 = Inr 4"
    by (simp add: example_world_def wimaxll_pipe_fd_def slot_def)
  then show ?thesis
    using close_pipe_void [of example_world 1 5 0] never by simp
qed

theorem close_pipe_counterexample:
  "slot (pipes example_world) 5 = None \<and>
   fst (wimaxll_pipe_close example_world 5) \<noteq> Inl BadPipeId"
  by (simp add: example_world_def slot_def wimaxll_pipe_close_def)


section \<open>Properties of the dispatch engine\<close>








lemma example_decode_msgs:
  "map example_decode [[1, 10], [1, 20], [1, 30], [1, 40]] =
     map Some [MsgToUser [10], MsgToUser [20], MsgToUser [30], MsgToUser [40]]"
  by (simp add: example_decode_def)





section \<open>Properties of a handle whose device is gone\<close>

lemma gone_read: "\<not> valid w \<Longrightarrow> wimaxll_pipe_read dec w i = (Inl DeviceGone, w)"
  by (simp add: wimaxll_pipe_read_def)

lemma gone_write: "\<not> valid w \<Longrightarrow> wimaxll_msg_write enc w buf = (Inl DeviceGone, w)"
  by (simp add: wimaxll_msg_write_def pipe_write_def)

lemma gone_open: "\<not> valid w \<Longrightarrow> wimaxll_pipe_open w name = (Inl DeviceGone, w)"
  by (simp add: wimaxll_pipe_open_def)

lemma gone_wait: "\<not> valid w \<Longrightarrow> wimaxll_wait_for_state_change dec h es w = (Inl DeviceGone, w)"
  by (simp add: wimaxll_wait_for_state_change_def wait_for_def)

lemma gone_op: "\<not> valid w \<Longrightarrow> exec_op dec enc h a w = (Some DeviceGone, w)"
  by (cases a) (simp_all add: exec_op_def gone_read gone_write gone_open gone_wait)

lemma gone_ops:
  "\<not> valid w \<Longrightarrow> exec_ops dec enc h as w = (replicate (length as) (Some DeviceGone), w)"
  by (induction as) (simp_all add: gone_op)

text \<open>
  C4. On a handle marked invalid, \<^verbatim>\<open>pipe_read\<close>, \<^verbatim>\<open>msg_write\<close>, \<^verbatim>\<open>pipe_open\<close> and
  \<^verbatim>\<open>wait_for_state_change\<close> each return \<open>DeviceGone\<close> and leave the whole state, the log
  of kernel interactions included, as it was; so does every operation of any sequence of
  them.
\<close>

theorem device_gone_is_permanent:
  assumes "\<not> valid w"
  shows "wimaxll_pipe_read dec w i = (Inl DeviceGone, w) \<and>
    wimaxll_msg_write enc w buf = (Inl DeviceGone, w) \<and>
    wimaxll_pipe_open w name = (Inl DeviceGone, w) \<and>
    wimaxll_wait_for_state_change dec h es w = (Inl DeviceGone, w) \<and>
    exec_ops dec enc h as w = (replicate (length as) (Some DeviceGone), w)"
  using assms by (simp add: gone_read gone_write gone_open gone_wait gone_ops)

theorem device_gone_is_permanent_witness:
  "\<not> valid example_gone \<and>
   exec_ops example_decode Inr None
     [Read 0, Write [1, 2], OpenPipe ''diag'', Wait [Readable []], Read 1] example_gone =
     ([Some DeviceGone, Some DeviceGone, Some DeviceGone, Some DeviceGone, Some DeviceGone],
      example_gone)"
proof -
  have gone: "\<not> valid example_gone"
    by (simp add: example_gone_def block_on_fd_def)
  show ?thesis
    using device_gone_is_permanent [OF gone, of example_decode 0 Inr "[]" "''''" None "[]"
        "[Read 0, Write [1, 2], OpenPipe ''diag'', Wait [Readable []], Read 1]"] gone
    by simp
qed

section \<open>Properties of the synchronous wait\<close>

lemma pipes_read: "pipes (snd (wimaxll_pipe_read dec w i)) = pipes w"
  by (simp add: wimaxll_pipe_read_def split: option.splits prod.splits)

lemma pipes_block: "pipes (block_on_fd w f e) = pipes w"
  by (simp add: block_on_fd_def split: event.splits)

lemma pipes_wait_loop: "pipes (snd (wait_loop dec i f es w)) = pipes w"
proof (induction es arbitrary: w)
  case Nil
  then show ?case by simp
next
  case (Cons e es)
  obtain r w' where rd: "wimaxll_pipe_read dec (block_on_fd w f e) i = (r, w')"
    by (cases "wimaxll_pipe_read dec (block_on_fd w f e) i")
  have same: "pipes w' = pipes w"
    using pipes_read [of dec "block_on_fd w f e" i] rd by (simp add: pipes_block)
  show ?case
    using Cons.IH [of w'] same rd
    by (simp split: sum.splits option.splits)
qed

lemma restore_callback:
  assumes "slot (pipes w) i = Some p"
    and "pipes w' = pipes (set_callback w0 i c x)" and "pipes w0 = pipes w"
  shows "pipes (set_callback w' i (cb p) (cb_ctx p)) = pipes w"
proof -
  have i: "i < length (pipes w)" and at: "pipes w ! i = Some p"
    using assms(1) by (auto simp add: slot_def split: if_splits)
  have "slot (pipes w0) i = Some p"
    using assms(1,3) by simp
  then have w': "pipes w' = (pipes w)[i := Some (p\<lparr>cb := c, cb_ctx := x\<rparr>)]"
    using assms(2,3) by (simp add: set_callback_def)
  then have "slot (pipes w') i = Some (p\<lparr>cb := c, cb_ctx := x\<rparr>)"
    using i by (simp add: slot_def)
  then have "pipes (set_callback w' i (cb p) (cb_ctx p)) = (pipes w)[i := Some p]"
    by (simp add: set_callback_def w')
  then show ?thesis
    using at i by (simp add: list_update_same_conv)
qed

lemma pipes_wait_for: "pipes (snd (wait_for dec h i matcher es w)) = pipes w"
proof (cases "valid w")
  case False
  then show ?thesis by (simp add: wait_for_def)
next
  case True
  show ?thesis
  proof (cases "slot (pipes w) i")
    case None
    then show ?thesis using True by (simp add: wait_for_def)
  next
    case (Some p)
    let ?w0 = "w\<lparr>mem := (mem w)\<lparr>contexts :=
                  (contexts (mem w))(WaitCtx \<mapsto> WIMAXLL_GNL_CB_CONTEXT_INIT h), wait_out := None\<rparr>\<rparr>"
    let ?w1 = "set_callback ?w0 i (Some (wait_cb matcher)) (Some WaitCtx)"
    obtain r w' where lp: "wait_loop dec i (pfd p) es ?w1 = (r, w')"
      by (cases "wait_loop dec i (pfd p) es ?w1")
    let ?w2 = "w'\<lparr>mem := (mem w')\<lparr>contexts := (contexts (mem w'))(WaitCtx := None)\<rparr>\<rparr>"
    have "pipes w' = pipes ?w1"
      using pipes_wait_loop [of dec i "pfd p" es ?w1] lp by simp
    then have "pipes ?w2 = pipes ?w1"
      by simp
    then have "pipes (set_callback ?w2 i (cb p) (cb_ctx p)) = pipes w"
      by (rule restore_callback [OF Some]) simp
    then show ?thesis
      using True Some lp by (simp add: wait_for_def)
  qed
qed

text \<open>
  C6. Whatever \<^verbatim>\<open>wimaxll_wait_for_state_change\<close> returns (a matched pair, \<open>DeviceGone\<close>,
  \<open>BadPipeId\<close> or \<open>Timeout\<close>), the pipe registry after it is the registry before it: on
  every pipe the installed callback and context are the ones installed before the call.
\<close>

theorem wait_restores_callback:
  "pipes (snd (wimaxll_wait_for_state_change dec h es w)) = pipes w \<and>
   get_callback (snd (wimaxll_wait_for_state_change dec h es w)) i = get_callback w i"
  by (simp add: wimaxll_wait_for_state_change_def pipes_wait_for get_callback_def)


text \<open>
  The wait on the example handle: a driver message, a state change from 3 to 4 and another
  driver message arrive; the wait returns the pair.
\<close>

lemma wait_example:
  "fst (wimaxll_wait_for_state_change example_decode None [Readable [[1, 9], [0, 3, 4], [1, 8]]]
      (set_callback example_world 0 (Some stop_on_second) (Some (AppCtx 2)))) = Inr (3, 4)"
  by (simp add: wimaxll_wait_for_state_change_def wait_for_def example_world_def set_callback_def
      slot_def block_on_fd_def wimaxll_pipe_read_def example_decode_def wait_cb_def completed_def
      WIMAXLL_GNL_CB_CONTEXT_INIT_def EBUSY_def)


end
